theory Spec2Isabelle
  imports Main
begin

section \<open>Values\<close>

text \<open>
  The classes of the tabular engine that the proxy can meet. The first six are the ones
  listed in \<^verbatim>\<open>DataFrameLikeClasses\<close>; \<open>Series\<close> and \<open>Expr\<close> stand for engine classes outside
  that tuple.
\<close>

datatype pl_class =
  DataFrame | GroupBy | DynamicGroupBy | RollingGroupBy | LazyFrame | LazyGroupBy
  | Series | Expr

definition DataFrameLikeClasses :: "pl_class list" where
  "DataFrameLikeClasses =
     [DataFrame, GroupBy, DynamicGroupBy, RollingGroupBy, LazyFrame, LazyGroupBy]"

text \<open>
  Objects that live outside the proxy class: plain Python data, instances of engine
  classes (their contents are of an arbitrary type \<open>'t\<close>, opaque to the proxy) and callables
  (a bound method or function, described by a name and the object it belongs to). A
  \<^verbatim>\<open>dict\<close> is an association list in insertion order.
\<close>

datatype 't pl_value =
    NoneV
  | BoolV bool
  | IntV int
  | StrV string
  | ListV "'t pl_value list"
  | DictV "('t pl_value \<times> 't pl_value) list"
  | Instance pl_class 't
  | Callable string "'t pl_value"

text \<open>
  \<^verbatim>\<open>@dataclasses.dataclass(frozen=True) class PolarsDataset\<close> with its two fields. The
  annotation \<^verbatim>\<open>data: DataFrameLikeType\<close> makes the payload an engine object, so a proxy is
  never the payload of a proxy.
\<close>

record 't PolarsDataset =
  data :: "'t pl_value"
  extra_attr :: string

text \<open>
  What an operation of the proxy can hand back: an object of the engine as it is, a
  proxy, the closure \<^verbatim>\<open>wrapper\<close> built by \<^verbatim>\<open>_wrap_method\<close> (it captures \<^verbatim>\<open>self\<close> and
  \<^verbatim>\<open>__func\<close>), or the list or dict of proxies that \<^verbatim>\<open>partition_by\<close> builds.
\<close>

datatype 't pyval =
    Raw "'t pl_value"
  | Proxy "'t PolarsDataset"
  | Wrapper "'t PolarsDataset" "'t pl_value"
  | PList "'t pyval list"
  | PDict "('t pl_value \<times> 't pyval) list"

datatype exn =
  AttributeError | TypeError | ValueError | NotImplementedError | AssertionError
  | ZeroDivisionError

type_synonym 't kwargs = "(string \<times> 't pyval) list"

text \<open>
  The external collaborator. \<open>getattr_data obj name\<close> is \<^verbatim>\<open>getattr(obj, name)\<close> on an
  engine object, \<open>invoke f args kwargs\<close> is the call \<^verbatim>\<open>f(*args, **kwargs)\<close> of an engine
  callable, \<open>builtin_len obj\<close> is \<^verbatim>\<open>len(obj)\<close> and \<open>pl_concat\<close> is \<^verbatim>\<open>pl.concat\<close>. Each can raise.
\<close>

record 't engine =
  getattr_data :: "'t pl_value \<Rightarrow> string \<Rightarrow> exn + 't pl_value"
  invoke :: "'t pl_value \<Rightarrow> 't pyval list \<Rightarrow> 't kwargs \<Rightarrow> exn + 't pl_value"
  builtin_len :: "'t pl_value \<Rightarrow> exn + nat"
  pl_concat :: "'t pl_value list \<Rightarrow> 't kwargs \<Rightarrow> exn + 't pl_value"

section \<open>Built-ins used by the proxy\<close>

text \<open>\<^verbatim>\<open>isinstance(v, DataFrameLikeClasses)\<close>\<close>

fun isinstance_DataFrameLike :: "'t pl_value \<Rightarrow> bool" where
  "isinstance_DataFrameLike (Instance c t) = (c \<in> set DataFrameLikeClasses)"
| "isinstance_DataFrameLike v = False"

text \<open>\<^verbatim>\<open>callable(v)\<close>\<close>

fun callable :: "'t pl_value \<Rightarrow> bool" where
  "callable (Callable name obj) = True"
| "callable v = False"

text \<open>\<^verbatim>\<open>isinstance(other, PolarsDataset)\<close>\<close>

fun isinstance_PolarsDataset :: "'t pyval \<Rightarrow> bool" where
  "isinstance_PolarsDataset (Proxy p) = True"
| "isinstance_PolarsDataset v = False"

text \<open>\<^verbatim>\<open>f(*args, **kwargs)\<close> for an engine object \<open>f\<close>: calling what is not callable raises.\<close>

definition call :: "'t engine \<Rightarrow> 't pl_value \<Rightarrow> 't pyval list \<Rightarrow> 't kwargs \<Rightarrow> exn + 't pl_value" where
  "call env f args kwargs = (if callable f then invoke env f args kwargs else Inl TypeError)"

text \<open>\<^verbatim>\<open>dataclasses.replace(self, data=new_data)\<close>\<close>

definition replace_data :: "'t PolarsDataset \<Rightarrow> 't pl_value \<Rightarrow> 't PolarsDataset" where
  "replace_data self new_data = self\<lparr>data := new_data\<rparr>"

text \<open>
  \<^verbatim>\<open>d[k] = v\<close> on a dict: an existing key keeps its place and gets the new value, a new key
  goes to the end.
\<close>

fun dict_setitem :: "('k \<times> 'v) list \<Rightarrow> 'k \<Rightarrow> 'v \<Rightarrow> ('k \<times> 'v) list" where
  "dict_setitem [] k v = [(k, v)]"
| "dict_setitem ((k', v') # kvs) k v =
     (if k' = k then (k', v) # kvs else (k', v') # dict_setitem kvs k v)"

text \<open>\<^verbatim>\<open>{name: f(new_data) for name, new_data in result.items()}\<close>\<close>

definition dict_comprehension :: "('v \<Rightarrow> 'w) \<Rightarrow> ('k \<times> 'v) list \<Rightarrow> ('k \<times> 'w) list" where
  "dict_comprehension f items = foldl (\<lambda>acc (name, new_data). dict_setitem acc name (f new_data)) [] items"

section \<open>The proxy class\<close>

text \<open>
  The closure \<^verbatim>\<open>wrapper\<close> of \<^verbatim>\<open>_wrap_method\<close>, applied to arguments: it calls \<^verbatim>\<open>__func\<close> and
  re-wraps a result of a class in \<^verbatim>\<open>DataFrameLikeClasses\<close>.
\<close>

definition wrapper :: "'t engine \<Rightarrow> 't PolarsDataset \<Rightarrow> 't pl_value \<Rightarrow> 't pyval list \<Rightarrow> 't kwargs \<Rightarrow> exn + 't pyval" where
  "wrapper env self func args kwargs =
     (case call env func args kwargs of
        Inl e \<Rightarrow> Inl e
      | Inr result \<Rightarrow>
          if isinstance_DataFrameLike result then Inr (Proxy (replace_data self result))
          else Inr (Raw result))"

definition wrap_method :: "'t PolarsDataset \<Rightarrow> 't pl_value \<Rightarrow> 't pyval" where
  "wrap_method self func = Wrapper self func"

text \<open>
  Calling a value that the proxy handed back: the closure runs its body, an engine
  object is called by the engine, and a proxy, a list or a dict is not callable (the class
  defines no \<^verbatim>\<open>__call__\<close>, and the interpreter does not consult \<^verbatim>\<open>__getattr__\<close> for it).
\<close>

fun call_value :: "'t engine \<Rightarrow> 't pyval \<Rightarrow> 't pyval list \<Rightarrow> 't kwargs \<Rightarrow> exn + 't pyval" where
  "call_value env (Wrapper self func) args kwargs = wrapper env self func args kwargs"
| "call_value env (Raw f) args kwargs = map_sum id Raw (call env f args kwargs)"
| "call_value env v args kwargs = Inl TypeError"

text \<open>\<^verbatim>\<open>__getattr__\<close>: the interpreter calls it for a name that normal lookup does not find.\<close>

definition dunder_getattr :: "'t engine \<Rightarrow> 't PolarsDataset \<Rightarrow> string \<Rightarrow> exn + 't pyval" where
  "dunder_getattr env self name =
     (case getattr_data env (data self) name of
        Inl e \<Rightarrow> Inl e
      | Inr attr \<Rightarrow>
          if isinstance_DataFrameLike attr then Inr (Proxy (replace_data self attr))
          else if callable attr then Inr (wrap_method self attr)
          else Inr (Raw attr))"

text \<open>
  The names bound in the body of the class: the two fields and the methods. Names
  outside this list (and outside what \<^verbatim>\<open>object\<close> and the dataclass decorator provide, all
  of them of the form \<^verbatim>\<open>__x__\<close>) reach \<^verbatim>\<open>__getattr__\<close>.
\<close>

definition class_body :: "string list" where
  "class_body =
     [''data'', ''extra_attr'', ''__getattr__'', ''_wrap_method'', ''_comp'',
      ''__eq__'', ''__ne__'', ''__gt__'', ''__lt__'', ''__ge__'', ''__le__'',
      ''_apply_op'', ''__floordiv__'', ''__truediv__'', ''__mul__'', ''__rmul__'',
      ''__add__'', ''__radd__'', ''__sub__'', ''__mod__'', ''__getstate__'',
      ''__getitem__'', ''__iter__'', ''__reversed__'', ''__bool__'', ''__len__'',
      ''__copy__'', ''join'', ''join_asof'', ''partition_by'']"

text \<open>
  \<^verbatim>\<open>_comp\<close>. Neither \<^verbatim>\<open>_compare_to_other_df\<close> nor \<^verbatim>\<open>_compare_to_non_df\<close> is in the class
  body, so \<^verbatim>\<open>self._compare_to_other_df\<close> is \<^verbatim>\<open>self.__getattr__("_compare_to_other_df")\<close>;
  what it returns is then called with \<^verbatim>\<open>(other, op)\<close>.
\<close>

definition comp_dispatch :: "'t engine \<Rightarrow> 't PolarsDataset \<Rightarrow> 't pyval \<Rightarrow> string \<Rightarrow> exn + 't pyval" where
  "comp_dispatch env self other op =
     (if isinstance_PolarsDataset other then
        (case dunder_getattr env self ''_compare_to_other_df'' of
           Inl e \<Rightarrow> Inl e
         | Inr m \<Rightarrow> call_value env m [other, Raw (StrV op)] [])
      else
        (case dunder_getattr env self ''_compare_to_non_df'' of
           Inl e \<Rightarrow> Inl e
         | Inr m \<Rightarrow> call_value env m [other, Raw (StrV op)] []))"

definition dunder_eq :: "'t engine \<Rightarrow> 't PolarsDataset \<Rightarrow> 't pyval \<Rightarrow> exn + 't pyval" where
  "dunder_eq env self other = comp_dispatch env self other ''eq''"

definition dunder_ne :: "'t engine \<Rightarrow> 't PolarsDataset \<Rightarrow> 't pyval \<Rightarrow> exn + 't pyval" where
  "dunder_ne env self other = comp_dispatch env self other ''neq''"

definition dunder_gt :: "'t engine \<Rightarrow> 't PolarsDataset \<Rightarrow> 't pyval \<Rightarrow> exn + 't pyval" where
  "dunder_gt env self other = comp_dispatch env self other ''gt''"

definition dunder_lt :: "'t engine \<Rightarrow> 't PolarsDataset \<Rightarrow> 't pyval \<Rightarrow> exn + 't pyval" where
  "dunder_lt env self other = comp_dispatch env self other ''lt''"

definition dunder_ge :: "'t engine \<Rightarrow> 't PolarsDataset \<Rightarrow> 't pyval \<Rightarrow> exn + 't pyval" where
  "dunder_ge env self other = comp_dispatch env self other ''gt_eq''"

definition dunder_le :: "'t engine \<Rightarrow> 't PolarsDataset \<Rightarrow> 't pyval \<Rightarrow> exn + 't pyval" where
  "dunder_le env self other = comp_dispatch env self other ''lt_eq''"

text \<open>
  The names that \<^verbatim>\<open>_apply_op\<close> is called with. Every one of them is in the class body, so
  \<^verbatim>\<open>getattr(self, __op)\<close> is the proxy's own method of that name, which calls \<^verbatim>\<open>_apply_op\<close>
  again with the same name.
\<close>

datatype binop = FloorDiv | TrueDiv | Mul | RMul | Add | RAdd | Sub | Mod | Join | JoinAsof

fun op_name :: "binop \<Rightarrow> string" where
  "op_name FloorDiv = ''__floordiv__''"
| "op_name TrueDiv = ''__truediv__''"
| "op_name Mul = ''__mul__''"
| "op_name RMul = ''__rmul__''"
| "op_name Add = ''__add__''"
| "op_name RAdd = ''__radd__''"
| "op_name Sub = ''__sub__''"
| "op_name Mod = ''__mod__''"
| "op_name Join = ''join''"
| "op_name JoinAsof = ''join_asof''"

text \<open>
  \<^verbatim>\<open>_apply_op\<close>. With a proxy as the other operand, the proxy's own method is called on
  \<^verbatim>\<open>__other.data\<close>, which is not a proxy; otherwise the payload's attribute is looked up and
  called, and the result goes into \<^verbatim>\<open>dataclasses.replace\<close> whatever it is.
\<close>

function (sequential) apply_op :: "'t engine \<Rightarrow> 't PolarsDataset \<Rightarrow> 't pyval \<Rightarrow> binop \<Rightarrow> 't pyval list \<Rightarrow> 't kwargs \<Rightarrow> exn + 't pyval" where
  "apply_op env self (Proxy other) op args kwargs =
     apply_op env self (Raw (data other)) op args kwargs"
| "apply_op env self other op args kwargs =
     (case getattr_data env (data self) (op_name op) of
        Inl e \<Rightarrow> Inl e
      | Inr f \<Rightarrow>
          (case call env f (other # args) kwargs of
             Inl e \<Rightarrow> Inl e
           | Inr new_data \<Rightarrow> Inr (Proxy (replace_data self new_data))))"
  by pat_completeness auto
termination
  by (relation "measure (\<lambda>(env, self, other, op, args, kwargs). if isinstance_PolarsDataset other then 1 else 0)") auto

definition dunder_floordiv :: "'t engine \<Rightarrow> 't PolarsDataset \<Rightarrow> 't pyval \<Rightarrow> exn + 't pyval" where
  "dunder_floordiv env self other = apply_op env self other FloorDiv [] []"

definition dunder_truediv :: "'t engine \<Rightarrow> 't PolarsDataset \<Rightarrow> 't pyval \<Rightarrow> exn + 't pyval" where
  "dunder_truediv env self other = apply_op env self other TrueDiv [] []"

definition dunder_mul :: "'t engine \<Rightarrow> 't PolarsDataset \<Rightarrow> 't pyval \<Rightarrow> exn + 't pyval" where
  "dunder_mul env self other = apply_op env self other Mul [] []"

definition dunder_rmul :: "'t engine \<Rightarrow> 't PolarsDataset \<Rightarrow> 't pyval \<Rightarrow> exn + 't pyval" where
  "dunder_rmul env self other = apply_op env self other RMul [] []"

definition dunder_add :: "'t engine \<Rightarrow> 't PolarsDataset \<Rightarrow> 't pyval \<Rightarrow> exn + 't pyval" where
  "dunder_add env self other = apply_op env self other Add [] []"

definition dunder_radd :: "'t engine \<Rightarrow> 't PolarsDataset \<Rightarrow> 't pyval \<Rightarrow> exn + 't pyval" where
  "dunder_radd env self other = apply_op env self other RAdd [] []"

definition dunder_sub :: "'t engine \<Rightarrow> 't PolarsDataset \<Rightarrow> 't pyval \<Rightarrow> exn + 't pyval" where
  "dunder_sub env self other = apply_op env self other Sub [] []"

definition dunder_mod :: "'t engine \<Rightarrow> 't PolarsDataset \<Rightarrow> 't pyval \<Rightarrow> exn + 't pyval" where
  "dunder_mod env self other = apply_op env self other Mod [] []"

text \<open>\<^verbatim>\<open>__getstate__\<close>\<close>

definition dunder_getstate :: "'t PolarsDataset \<Rightarrow> exn + 't pyval" where
  "dunder_getstate self = Inl NotImplementedError"

text \<open>\<^verbatim>\<open>__getitem__\<close>: \<^verbatim>\<open>self.data.__getitem__\<close> is looked up, wrapped and called on the key.\<close>

definition dunder_getitem :: "'t engine \<Rightarrow> 't PolarsDataset \<Rightarrow> 't pyval \<Rightarrow> exn + 't pyval" where
  "dunder_getitem env self item =
     (case getattr_data env (data self) ''__getitem__'' of
        Inl e \<Rightarrow> Inl e
      | Inr f \<Rightarrow> call_value env (wrap_method self f) [item] [])"

text \<open>\<^verbatim>\<open>__iter__\<close>, \<^verbatim>\<open>__reversed__\<close>, \<^verbatim>\<open>__bool__\<close>: the payload's method, called without arguments.\<close>

definition dunder_iter :: "'t engine \<Rightarrow> 't PolarsDataset \<Rightarrow> exn + 't pyval" where
  "dunder_iter env self =
     (case getattr_data env (data self) ''__iter__'' of
        Inl e \<Rightarrow> Inl e
      | Inr f \<Rightarrow> map_sum id Raw (call env f [] []))"

definition dunder_reversed :: "'t engine \<Rightarrow> 't PolarsDataset \<Rightarrow> exn + 't pyval" where
  "dunder_reversed env self =
     (case getattr_data env (data self) ''__reversed__'' of
        Inl e \<Rightarrow> Inl e
      | Inr f \<Rightarrow> map_sum id Raw (call env f [] []))"

definition dunder_bool :: "'t engine \<Rightarrow> 't PolarsDataset \<Rightarrow> exn + 't pyval" where
  "dunder_bool env self =
     (case getattr_data env (data self) ''__bool__'' of
        Inl e \<Rightarrow> Inl e
      | Inr f \<Rightarrow> map_sum id Raw (call env f [] []))"

text \<open>\<^verbatim>\<open>__len__\<close>: \<^verbatim>\<open>len(self.data)\<close>\<close>

definition dunder_len :: "'t engine \<Rightarrow> 't PolarsDataset \<Rightarrow> exn + 't pyval" where
  "dunder_len env self = map_sum id (\<lambda>n. Raw (IntV (int n))) (builtin_len env (data self))"

text \<open>\<^verbatim>\<open>__copy__\<close>: \<^verbatim>\<open>dataclasses.replace(self)\<close> with no change\<close>

definition dunder_copy :: "'t PolarsDataset \<Rightarrow> 't PolarsDataset" where
  "dunder_copy self = self"

definition join :: "'t engine \<Rightarrow> 't PolarsDataset \<Rightarrow> 't pyval \<Rightarrow> 't pyval list \<Rightarrow> 't kwargs \<Rightarrow> exn + 't pyval" where
  "join env self other args kwargs = apply_op env self other Join args kwargs"

definition join_asof :: "'t engine \<Rightarrow> 't PolarsDataset \<Rightarrow> 't pyval \<Rightarrow> 't pyval list \<Rightarrow> 't kwargs \<Rightarrow> exn + 't pyval" where
  "join_asof env self other args kwargs = apply_op env self other JoinAsof args kwargs"

text \<open>
  \<^verbatim>\<open>partition_by\<close>: the payload's method is looked up and called; a list and a dict are
  rebuilt with every container replaced by a proxy, anything else fails the assertion
  (assertions are enabled, as they are unless the interpreter runs with \<^verbatim>\<open>-O\<close>).
\<close>

definition partition_by :: "'t engine \<Rightarrow> 't PolarsDataset \<Rightarrow> 't pyval list \<Rightarrow> 't kwargs \<Rightarrow> exn + 't pyval" where
  "partition_by env self args kwargs =
     (case getattr_data env (data self) ''partition_by'' of
        Inl e \<Rightarrow> Inl e
      | Inr f \<Rightarrow>
          (case call env f args kwargs of
             Inl e \<Rightarrow> Inl e
           | Inr result \<Rightarrow>
               (case result of
                  ListV xs \<Rightarrow> Inr (PList (map (\<lambda>new_data. Proxy (replace_data self new_data)) xs))
                | DictV kvs \<Rightarrow>
                    Inr (PDict (dict_comprehension (\<lambda>new_data. Proxy (replace_data self new_data)) kvs))
                | _ \<Rightarrow> Inl AssertionError)))"

text \<open>
  The module-level \<^verbatim>\<open>concat\<close>: \<^verbatim>\<open>pl.concat\<close> receives the payloads of the items in order
  and the keyword arguments as they are; \<^verbatim>\<open>base\<close> gives every other field.
\<close>

definition concat_datasets :: "'t engine \<Rightarrow> 't PolarsDataset list \<Rightarrow> 't PolarsDataset \<Rightarrow> 't kwargs \<Rightarrow> exn + 't PolarsDataset" where
  "concat_datasets env items base kwargs =
     (case pl_concat env (map data items) kwargs of
        Inl e \<Rightarrow> Inl e
      | Inr new_data \<Rightarrow> Inr (replace_data base new_data))"

section \<open>The comparison as the specification words it\<close>

text \<open>
  The specification's reading of a comparison, kept apart from the code's \<open>comp_dispatch\<close>
  to compare the two: a proxy on the right is replaced by its payload, the payload's
  comparison is called on it, and the result is always wrapped with the left metadata.
\<close>

definition spec_comparison :: "'t engine \<Rightarrow> 't PolarsDataset \<Rightarrow> 't pyval \<Rightarrow> string \<Rightarrow> exn + 't pyval" where
  "spec_comparison env self other op =
     (let operand = (case other of Proxy p \<Rightarrow> Raw (data p) | _ \<Rightarrow> other);
          routine = (if isinstance_PolarsDataset other then ''_compare_to_other_df''
                     else ''_compare_to_non_df'')
      in case getattr_data env (data self) routine of
           Inl e \<Rightarrow> Inl e
         | Inr f \<Rightarrow>
             (case call env f [operand, Raw (StrV op)] [] of
                Inl e \<Rightarrow> Inl e
              | Inr result \<Rightarrow> Inr (Proxy \<lparr>data = result, extra_attr = extra_attr self\<rparr>)))"

section \<open>A small engine for concrete runs\<close>

text \<open>
  An engine over one-column integer tables: the contents of an instance are the cells of
  its column. With \<open>duck = True\<close> a method that expects a table also takes a proxy and reads
  its payload (all that the proxy would hand over by attribute delegation); with
  \<open>duck = False\<close> it takes a table of its own only.
\<close>

fun table_cells :: "bool \<Rightarrow> int list pyval \<Rightarrow> int list option" where
  "table_cells duck (Raw (Instance DataFrame ys)) = Some ys"
| "table_cells duck (Proxy p) =
     (if duck then (case data p of Instance DataFrame ys \<Rightarrow> Some ys | _ \<Rightarrow> None) else None)"
| "table_cells duck v = None"

fun cmp_named :: "string \<Rightarrow> (int \<Rightarrow> int \<Rightarrow> bool) option" where
  "cmp_named name =
     (if name = ''eq'' then Some (\<lambda>x y. x = y)
      else if name = ''neq'' then Some (\<lambda>x y. x \<noteq> y)
      else if name = ''gt'' then Some (\<lambda>x y. x > y)
      else if name = ''lt'' then Some (\<lambda>x y. x < y)
      else if name = ''gt_eq'' then Some (\<lambda>x y. x \<ge> y)
      else if name = ''lt_eq'' then Some (\<lambda>x y. x \<le> y)
      else None)"

fun arith_named :: "string \<Rightarrow> (int \<Rightarrow> int \<Rightarrow> int) option" where
  "arith_named name =
     (if name = ''__floordiv__'' then Some (\<lambda>x y. x div y)
      else if name = ''__mul__'' then Some (\<lambda>x y. x * y)
      else if name = ''__rmul__'' then Some (\<lambda>x y. y * x)
      else if name = ''__add__'' then Some (\<lambda>x y. x + y)
      else if name = ''__radd__'' then Some (\<lambda>x y. y + x)
      else if name = ''__sub__'' then Some (\<lambda>x y. x - y)
      else if name = ''__mod__'' then Some (\<lambda>x y. x mod y)
      else None)"

definition bool_cells :: "bool list \<Rightarrow> int list pl_value" where
  "bool_cells bs = Instance DataFrame (map (\<lambda>b. if b then 1 else 0) bs)"

definition table_methods :: "string list" where
  "table_methods =
     [''head'', ''lazy'', ''group_by'', ''is_empty'', ''to_series'',
      ''_compare_to_other_df'', ''_compare_to_non_df'',
      ''__floordiv__'', ''__mul__'', ''__rmul__'', ''__add__'', ''__radd__'', ''__sub__'',
      ''__mod__'', ''join'', ''partition_by'', ''__getitem__'', ''__iter__'',
      ''__reversed__'', ''__bool__'']"

fun cells_getattr :: "int list pl_value \<Rightarrow> string \<Rightarrow> exn + int list pl_value" where
  "cells_getattr (Instance DataFrame xs) name =
     (if name = ''height'' then Inr (IntV (int (length xs)))
      else if name = ''columns'' then Inr (ListV [StrV ''a''])
      else if name \<in> set table_methods then Inr (Callable name (Instance DataFrame xs))
      else Inl AttributeError)"
| "cells_getattr (Instance GroupBy xs) name =
     (if name = ''df'' then Inr (Instance DataFrame xs)
      else if name = ''__iter__'' then Inr (Callable name (Instance GroupBy xs))
      else Inl AttributeError)"
| "cells_getattr (Instance LazyFrame xs) name =
     (if name = ''collect'' then Inr (Callable name (Instance LazyFrame xs))
      else Inl AttributeError)"
| "cells_getattr v name = Inl AttributeError"

fun cells_method :: "bool \<Rightarrow> string \<Rightarrow> int list \<Rightarrow> int list pyval list \<Rightarrow> int list kwargs \<Rightarrow> exn + int list pl_value" where
  "cells_method duck name xs args kwargs =
     (if name = ''head'' then
        (case args of [Raw (IntV n)] \<Rightarrow> Inr (Instance DataFrame (take (nat n) xs)) | _ \<Rightarrow> Inl TypeError)
      else if name = ''lazy'' then Inr (Instance LazyFrame xs)
      else if name = ''group_by'' then Inr (Instance GroupBy xs)
      else if name = ''is_empty'' then Inr (BoolV (xs = []))
      else if name = ''to_series'' then Inr (Instance Series xs)
      else if name = ''_compare_to_other_df'' then
        (case args of
           [x, Raw (StrV op)] \<Rightarrow>
             (case (table_cells duck x, cmp_named op) of
                (Some ys, Some c) \<Rightarrow>
                  if length ys = length xs then Inr (bool_cells (map2 c xs ys)) else Inl ValueError
              | _ \<Rightarrow> Inl TypeError)
         | _ \<Rightarrow> Inl TypeError)
      else if name = ''_compare_to_non_df'' then
        (case args of
           [Raw (IntV k), Raw (StrV op)] \<Rightarrow>
             (case cmp_named op of
                Some c \<Rightarrow> Inr (bool_cells (map (\<lambda>x. c x k) xs))
              | None \<Rightarrow> Inl TypeError)
         | _ \<Rightarrow> Inl TypeError)
      else if name = ''join'' then
        (case args of
           [x] \<Rightarrow>
             (case table_cells duck x of
                Some ys \<Rightarrow> Inr (Instance DataFrame (filter (\<lambda>x. x \<in> set ys) xs))
              | None \<Rightarrow> Inl TypeError)
         | _ \<Rightarrow> Inl TypeError)
      else if name = ''partition_by'' then
        (if (''as_dict'', Raw (BoolV True)) \<in> set kwargs
         then Inr (DictV (map (\<lambda>k. (IntV k, Instance DataFrame (filter (\<lambda>x. x = k) xs))) (remdups xs)))
         else Inr (ListV (map (\<lambda>k. Instance DataFrame (filter (\<lambda>x. x = k) xs)) (remdups xs))))
      else if name = ''__getitem__'' then
        (case args of
           [Raw (StrV col)] \<Rightarrow> if col = ''a'' then Inr (Instance Series xs) else Inl ValueError
         | [Raw (ListV cols)] \<Rightarrow> if cols = [StrV ''a''] then Inr (Instance DataFrame xs) else Inl ValueError
         | _ \<Rightarrow> Inl TypeError)
      else if name = ''__iter__'' then Inr (ListV [Instance Series xs])
      else if name = ''__reversed__'' then Inr (ListV [Instance Series xs])
      else if name = ''__bool__'' then Inl TypeError
      else
        (case (arith_named name, args) of
           (Some f, [Raw (IntV k)]) \<Rightarrow>
             if k = 0 \<and> name \<in> {''__floordiv__'', ''__mod__''} then Inl ZeroDivisionError
             else Inr (Instance DataFrame (map (\<lambda>x. f x k) xs))
         | (Some f, [x]) \<Rightarrow>
             (case table_cells duck x of
                Some ys \<Rightarrow>
                  if length ys \<noteq> length xs then Inl ValueError
                  else if 0 \<in> set ys \<and> name \<in> {''__floordiv__'', ''__mod__''} then Inl ZeroDivisionError
                  else Inr (Instance DataFrame (map2 f xs ys))
              | None \<Rightarrow> Inl TypeError)
         | _ \<Rightarrow> Inl TypeError))"

fun cells_invoke :: "bool \<Rightarrow> int list pl_value \<Rightarrow> int list pyval list \<Rightarrow> int list kwargs \<Rightarrow> exn + int list pl_value" where
  "cells_invoke duck (Callable name (Instance DataFrame xs)) args kwargs =
     cells_method duck name xs args kwargs"
| "cells_invoke duck (Callable name (Instance GroupBy xs)) args kwargs =
     (if name = ''__iter__'' \<and> args = [] then Inr (ListV [Instance DataFrame xs]) else Inl TypeError)"
| "cells_invoke duck (Callable name (Instance LazyFrame xs)) args kwargs =
     (if name = ''collect'' \<and> args = [] then Inr (Instance DataFrame xs) else Inl TypeError)"
| "cells_invoke duck f args kwargs = Inl TypeError"

fun cells_len :: "int list pl_value \<Rightarrow> exn + nat" where
  "cells_len (Instance DataFrame xs) = Inr (length xs)"
| "cells_len v = Inl TypeError"

fun cells_concat :: "int list pl_value list \<Rightarrow> int list kwargs \<Rightarrow> exn + int list pl_value" where
  "cells_concat [] kwargs = Inl ValueError"
| "cells_concat [Instance DataFrame xs] kwargs = Inr (Instance DataFrame xs)"
| "cells_concat (Instance DataFrame xs # rest) kwargs =
     (case cells_concat rest kwargs of
        Inr (Instance DataFrame ys) \<Rightarrow> Inr (Instance DataFrame (xs @ ys))
      | Inr v \<Rightarrow> Inl TypeError
      | Inl e \<Rightarrow> Inl e)"
| "cells_concat (v # rest) kwargs = Inl TypeError"

definition cells_engine :: "bool \<Rightarrow> int list engine" where
  "cells_engine duck =
     \<lparr>getattr_data = cells_getattr, invoke = cells_invoke duck,
      builtin_len = cells_len, pl_concat = cells_concat\<rparr>"

text \<open>
  The same engine with a \<^verbatim>\<open>partition_by\<close> that breaks its contract and returns \<^verbatim>\<open>None\<close>.
\<close>

definition broken_engine :: "int list engine" where
  "broken_engine =
     (cells_engine True)\<lparr>invoke := (\<lambda>f args kwargs.
        case f of
          Callable name obj \<Rightarrow>
            if name = ''partition_by'' then Inr NoneV else cells_invoke True f args kwargs
        | _ \<Rightarrow> Inl TypeError)\<rparr>"

section \<open>Auxiliary facts\<close>

lemma replace_data_fields:
  "replace_data self d = \<lparr>data = d, extra_attr = extra_attr self\<rparr>"
  by (cases self) (simp add: replace_data_def)

lemma call_callable: "callable f \<Longrightarrow> call env f args kwargs = invoke env f args kwargs"
  by (simp add: call_def)

lemma callable_not_DataFrameLike: "callable f \<Longrightarrow> \<not> isinstance_DataFrameLike f"
  by (cases f) simp_all

lemma dict_setitem_fresh: "k \<notin> fst ` set kvs \<Longrightarrow> dict_setitem kvs k v = kvs @ [(k, v)]"
  by (induction kvs) auto

lemma foldl_setitem_distinct:
  "distinct (map fst items) \<Longrightarrow> fst ` set acc \<inter> fst ` set items = {} \<Longrightarrow>
   foldl (\<lambda>acc (name, new_data). dict_setitem acc name (f new_data)) acc items =
   acc @ map (\<lambda>(name, new_data). (name, f new_data)) items"
proof (induction items arbitrary: acc)
  case Nil
  then show ?case by simp
next
  case (Cons kv items)
  obtain k v where kv: "kv = (k, v)" by (cases kv)
  from Cons.prems have fresh: "k \<notin> fst ` set acc" by (auto simp: kv)
  have step: "dict_setitem acc k (f v) = acc @ [(k, f v)]"
    using fresh by (rule dict_setitem_fresh)
  have "fst ` set (acc @ [(k, f v)]) \<inter> fst ` set items = {}"
    using Cons.prems by (auto simp: kv)
  moreover have "distinct (map fst items)" using Cons.prems by simp
  ultimately show ?case
    using Cons.IH [of "acc @ [(k, f v)]"] by (simp add: kv step)
qed

lemma dict_comprehension_distinct:
  "distinct (map fst items) \<Longrightarrow>
   dict_comprehension f items = map (\<lambda>(name, new_data). (name, f new_data)) items"
  using foldl_setitem_distinct [of items "[]" f] by (simp add: dict_comprehension_def)

lemma wrapper_callable:
  "callable f \<Longrightarrow>
   wrapper env self f args kwargs =
     (case invoke env f args kwargs of
        Inl e \<Rightarrow> Inl e
      | Inr result \<Rightarrow>
          if isinstance_DataFrameLike result
          then Inr (Proxy \<lparr>data = result, extra_attr = extra_attr self\<rparr>)
          else Inr (Raw result))"
  by (simp add: wrapper_def call_callable replace_data_fields split: sum.splits)

lemma dunder_getattr_callable:
  "getattr_data env (data self) name = Inr f \<Longrightarrow> callable f \<Longrightarrow>
   dunder_getattr env self name = Inr (Wrapper self f)"
  by (simp add: dunder_getattr_def wrap_method_def callable_not_DataFrameLike)

lemma comp_dispatch_callable:
  assumes "getattr_data env (data self)
             (if isinstance_PolarsDataset other then ''_compare_to_other_df''
              else ''_compare_to_non_df'') = Inr f"
    and "callable f"
  shows "comp_dispatch env self other op =
           (case invoke env f [other, Raw (StrV op)] [] of
              Inl e \<Rightarrow> Inl e
            | Inr result \<Rightarrow>
                if isinstance_DataFrameLike result
                then Inr (Proxy \<lparr>data = result, extra_attr = extra_attr self\<rparr>)
                else Inr (Raw result))"
proof (cases "isinstance_PolarsDataset other")
  case True
  with assms have "dunder_getattr env self ''_compare_to_other_df'' = Inr (Wrapper self f)"
    by (simp add: dunder_getattr_callable)
  with True assms(2) show ?thesis
    by (simp add: comp_dispatch_def wrapper_callable)
next
  case False
  with assms have "dunder_getattr env self ''_compare_to_non_df'' = Inr (Wrapper self f)"
    by (simp add: dunder_getattr_callable)
  with False assms(2) show ?thesis
    by (simp add: comp_dispatch_def wrapper_callable)
qed

lemma apply_op_unfold:
  "apply_op env self other op args kwargs =
     (case getattr_data env (data self) (op_name op) of
        Inl e \<Rightarrow> Inl e
      | Inr f \<Rightarrow>
          (case call env f ((case other of Proxy p \<Rightarrow> Raw (data p) | _ \<Rightarrow> other) # args) kwargs of
             Inl e \<Rightarrow> Inl e
           | Inr new_data \<Rightarrow> Inr (Proxy \<lparr>data = new_data, extra_attr = extra_attr self\<rparr>)))"
  by (cases other) (simp_all add: replace_data_fields split: sum.splits)

lemma comp_dispatch_missing:
  "getattr_data env (data self)
     (if isinstance_PolarsDataset other then ''_compare_to_other_df''
      else ''_compare_to_non_df'') = Inl e \<Longrightarrow>
   comp_dispatch env self other op = Inl e"
  by (simp add: comp_dispatch_def dunder_getattr_def split: if_splits)

section \<open>Attribute delegation\<close>

text \<open>
  C1. When the payload has the attribute, \<^verbatim>\<open>__getattr__\<close> answers in one of three ways: a
  value of a class in \<^verbatim>\<open>DataFrameLikeClasses\<close> comes back as a proxy with the metadata of
  \<open>self\<close>; a callable comes back as a wrapper which, on any arguments, calls the original
  and makes a proxy (same metadata) of the result exactly when the result is of such a
  class, handing back every other result as it is; any other value comes back unchanged.
\<close>


theorem getattr_delegates:
  assumes "getattr_data env (data self) name = Inr attr"
  shows "(isinstance_DataFrameLike attr \<longrightarrow>
            dunder_getattr env self name =
              Inr (Proxy \<lparr>data = attr, extra_attr = extra_attr self\<rparr>))
       \<and> (callable attr \<longrightarrow>
            (\<exists>w. dunder_getattr env self name = Inr w \<and>
                 (\<forall>args kwargs.
                    call_value env w args kwargs =
                      (case invoke env attr args kwargs of
                         Inl e \<Rightarrow> Inl e
                       | Inr result \<Rightarrow>
                           if isinstance_DataFrameLike result
                           then Inr (Proxy \<lparr>data = result, extra_attr = extra_attr self\<rparr>)
                           else Inr (Raw result)))))
       \<and> (\<not> isinstance_DataFrameLike attr \<and> \<not> callable attr \<longrightarrow>
            dunder_getattr env self name = Inr (Raw attr))"
proof (intro conjI impI)
  assume "isinstance_DataFrameLike attr"
  with assms show "dunder_getattr env self name =
      Inr (Proxy \<lparr>data = attr, extra_attr = extra_attr self\<rparr>)"
    by (simp add: dunder_getattr_def replace_data_fields)
next
  assume c: "callable attr"
  with assms have "dunder_getattr env self name = Inr (Wrapper self attr)"
    by (rule dunder_getattr_callable)
  moreover have "\<forall>args kwargs. call_value env (Wrapper self attr) args kwargs =
      (case invoke env attr args kwargs of
         Inl e \<Rightarrow> Inl e
       | Inr result \<Rightarrow>
           if isinstance_DataFrameLike result
           then Inr (Proxy \<lparr>data = result, extra_attr = extra_attr self\<rparr>)
           else Inr (Raw result))"
    using c by (simp add: wrapper_callable)
  ultimately show "\<exists>w. dunder_getattr env self name = Inr w \<and>
      (\<forall>args kwargs. call_value env w args kwargs =
        (case invoke env attr args kwargs of
           Inl e \<Rightarrow> Inl e
         | Inr result \<Rightarrow>
             if isinstance_DataFrameLike result
             then Inr (Proxy \<lparr>data = result, extra_attr = extra_attr self\<rparr>)
             else Inr (Raw result)))"
    by blast
next
  assume "\<not> isinstance_DataFrameLike attr \<and> \<not> callable attr"
  with assms show "dunder_getattr env self name = Inr (Raw attr)"
    by (simp add: dunder_getattr_def)
qed

theorem getattr_delegates_witness:
  "dunder_getattr (cells_engine False)
     \<lparr>data = Instance GroupBy [1, 2], extra_attr = ''m''\<rparr> ''df'' =
     Inr (Proxy \<lparr>data = Instance DataFrame [1, 2], extra_attr = ''m''\<rparr>)
   \<and> (\<exists>w. dunder_getattr (cells_engine False)
            \<lparr>data = Instance DataFrame [1, 2], extra_attr = ''m''\<rparr> ''head'' = Inr w
          \<and> call_value (cells_engine False) w [Raw (IntV 1)] [] =
              Inr (Proxy \<lparr>data = Instance DataFrame [1], extra_attr = ''m''\<rparr>))
   \<and> (\<exists>w. dunder_getattr (cells_engine False)
            \<lparr>data = Instance DataFrame [1, 2], extra_attr = ''m''\<rparr> ''is_empty'' = Inr w
          \<and> call_value (cells_engine False) w [] [] = Inr (Raw (BoolV False)))
   \<and> dunder_getattr (cells_engine False)
       \<lparr>data = Instance DataFrame [1, 2], extra_attr = ''m''\<rparr> ''height'' = Inr (Raw (IntV 2))"
proof -
  let ?E = "cells_engine False"
  let ?g = "\<lparr>data = Instance GroupBy [1, 2], extra_attr = ''m''\<rparr> :: int list PolarsDataset"
  let ?d = "\<lparr>data = Instance DataFrame [1, 2], extra_attr = ''m''\<rparr> :: int list PolarsDataset"
  have h1: "getattr_data ?E (data ?g) ''df'' = Inr (Instance DataFrame [1, 2])"
    by (simp add: cells_engine_def)
  have h2: "getattr_data ?E (data ?d) ''head'' = Inr (Callable ''head'' (Instance DataFrame [1, 2]))"
    by (simp add: cells_engine_def table_methods_def)
  have h3: "getattr_data ?E (data ?d) ''is_empty'' = Inr (Callable ''is_empty'' (Instance DataFrame [1, 2]))"
    by (simp add: cells_engine_def table_methods_def)
  have h4: "getattr_data ?E (data ?d) ''height'' = Inr (IntV 2)"
    by (simp add: cells_engine_def)
  have a: "dunder_getattr ?E ?g ''df'' = Inr (Proxy ?d)"
    using getattr_delegates [OF h1] by (simp add: DataFrameLikeClasses_def)
  from getattr_delegates [OF h2] obtain w where
    w: "dunder_getattr ?E ?d ''head'' = Inr w"
      "call_value ?E w [Raw (IntV 1)] [] =
        (case invoke ?E (Callable ''head'' (Instance DataFrame [1, 2])) [Raw (IntV 1)] [] of
           Inl e \<Rightarrow> Inl e
         | Inr result \<Rightarrow>
             if isinstance_DataFrameLike result
             then Inr (Proxy \<lparr>data = result, extra_attr = extra_attr ?d\<rparr>)
             else Inr (Raw result))"
    by auto
  have b: "call_value ?E w [Raw (IntV 1)] [] =
      Inr (Proxy \<lparr>data = Instance DataFrame [1], extra_attr = ''m''\<rparr>)"
    unfolding w(2) by (simp add: cells_engine_def DataFrameLikeClasses_def)
  from getattr_delegates [OF h3] obtain w' where
    w': "dunder_getattr ?E ?d ''is_empty'' = Inr w'"
      "call_value ?E w' [] [] =
        (case invoke ?E (Callable ''is_empty'' (Instance DataFrame [1, 2])) [] [] of
           Inl e \<Rightarrow> Inl e
         | Inr result \<Rightarrow>
             if isinstance_DataFrameLike result
             then Inr (Proxy \<lparr>data = result, extra_attr = extra_attr ?d\<rparr>)
             else Inr (Raw result))"
    by auto
  have c: "call_value ?E w' [] [] = Inr (Raw (BoolV False))"
    unfolding w'(2) by (simp add: cells_engine_def)
  have d: "dunder_getattr ?E ?d ''height'' = Inr (Raw (IntV 2))"
    using getattr_delegates [OF h4] by simp
  from a w(1) b w'(1) c d show ?thesis by blast
qed

section \<open>Comparison operators\<close>


text \<open>
  C4, as stated: \<^verbatim>\<open>a <= b\<close> would never equal the result of the \<^verbatim>\<open>gt_eq\<close> comparison. For two
  proxies over tables with the same cells both comparisons give the all-true table.
\<close>

theorem le_differs_from_ge_counterexample:
  "dunder_le (cells_engine True)
     \<lparr>data = Instance DataFrame [1, 2, 2], extra_attr = ''left''\<rparr>
     (Proxy \<lparr>data = Instance DataFrame [1, 2, 2], extra_attr = ''right''\<rparr>) =
     Inr (Proxy \<lparr>data = Instance DataFrame [1, 1, 1], extra_attr = ''left''\<rparr>)
   \<and> dunder_ge (cells_engine True)
     \<lparr>data = Instance DataFrame [1, 2, 2], extra_attr = ''left''\<rparr>
     (Proxy \<lparr>data = Instance DataFrame [1, 2, 2], extra_attr = ''right''\<rparr>) =
     Inr (Proxy \<lparr>data = Instance DataFrame [1, 1, 1], extra_attr = ''left''\<rparr>)
   \<and> spec_comparison (cells_engine True)
     \<lparr>data = Instance DataFrame [1, 2, 2], extra_attr = ''left''\<rparr>
     (Proxy \<lparr>data = Instance DataFrame [1, 2, 2], extra_attr = ''right''\<rparr>) ''gt_eq'' =
     Inr (Proxy \<lparr>data = Instance DataFrame [1, 1, 1], extra_attr = ''left''\<rparr>)"
  by (simp add: dunder_le_def dunder_ge_def comp_dispatch_def dunder_getattr_def spec_comparison_def
      cells_engine_def table_methods_def DataFrameLikeClasses_def wrap_method_def
      wrapper_def call_def bool_cells_def replace_data_def)

text \<open>
  C4, amended. \<^verbatim>\<open><=\<close> is \<^verbatim>\<open>lt_eq\<close> and \<^verbatim>\<open>>=\<close> is \<^verbatim>\<open>gt_eq\<close>: for two proxies \<open>a\<close>, \<open>b\<close> over comparable
  payloads (the routine of the payload of \<open>a\<close> compares it with the payload of \<open>b\<close> to a
  table under either name, and gives the same answers when it is handed \<open>b\<close>), \<^verbatim>\<open>a <= b\<close> is
  the proxy, with the metadata of \<open>a\<close>, of the \<^verbatim>\<open>lt_eq\<close> comparison of the payload of \<open>a\<close> with
  the payload of \<open>b\<close>, \<^verbatim>\<open>a >= b\<close> is that of their \<^verbatim>\<open>gt_eq\<close> comparison, and \<^verbatim>\<open>a <= b\<close> differs
  from the result of the \<^verbatim>\<open>gt_eq\<close> comparison exactly when the two tables differ.
\<close>

theorem le_ge_mapping:
  assumes "getattr_data env (data a) ''_compare_to_other_df'' = Inr f"
    and "callable f"
    and "invoke env f [Raw (data b), Raw (StrV ''lt_eq'')] [] = Inr r_le"
    and "invoke env f [Raw (data b), Raw (StrV ''gt_eq'')] [] = Inr r_ge"
    and "isinstance_DataFrameLike r_le"
    and "isinstance_DataFrameLike r_ge"
    and "invoke env f [Proxy b, Raw (StrV ''lt_eq'')] [] = Inr r_le"
    and "invoke env f [Proxy b, Raw (StrV ''gt_eq'')] [] = Inr r_ge"
  shows "dunder_le env a (Proxy b) = Inr (Proxy \<lparr>data = r_le, extra_attr = extra_attr a\<rparr>)
       \<and> dunder_ge env a (Proxy b) = Inr (Proxy \<lparr>data = r_ge, extra_attr = extra_attr a\<rparr>)
       \<and> dunder_le env a (Proxy b) = spec_comparison env a (Proxy b) ''lt_eq''
       \<and> dunder_ge env a (Proxy b) = spec_comparison env a (Proxy b) ''gt_eq''
       \<and> (dunder_le env a (Proxy b) \<noteq> spec_comparison env a (Proxy b) ''gt_eq'')
           = (r_le \<noteq> r_ge)"
proof -
  have h: "getattr_data env (data a)
      (if isinstance_PolarsDataset (Proxy b) then ''_compare_to_other_df''
       else ''_compare_to_non_df'') = Inr f"
    using assms(1) by simp
  have le: "dunder_le env a (Proxy b) = Inr (Proxy \<lparr>data = r_le, extra_attr = extra_attr a\<rparr>)"
    unfolding dunder_le_def comp_dispatch_callable [OF h assms(2)] using assms(5,7) by simp
  have ge: "dunder_ge env a (Proxy b) = Inr (Proxy \<lparr>data = r_ge, extra_attr = extra_attr a\<rparr>)"
    unfolding dunder_ge_def comp_dispatch_callable [OF h assms(2)] using assms(6,8) by simp
  have sle: "spec_comparison env a (Proxy b) ''lt_eq'' =
      Inr (Proxy \<lparr>data = r_le, extra_attr = extra_attr a\<rparr>)"
    using assms(1,2,3) by (simp add: spec_comparison_def call_callable)
  have sge: "spec_comparison env a (Proxy b) ''gt_eq'' =
      Inr (Proxy \<lparr>data = r_ge, extra_attr = extra_attr a\<rparr>)"
    using assms(1,2,4) by (simp add: spec_comparison_def call_callable)
  show ?thesis
    unfolding le ge sle sge by auto
qed

theorem le_ge_mapping_witness:
  "dunder_le (cells_engine True)
     \<lparr>data = Instance DataFrame [1, 2, 2], extra_attr = ''left''\<rparr>
     (Proxy \<lparr>data = Instance DataFrame [1, 3, 1], extra_attr = ''right''\<rparr>) =
     Inr (Proxy \<lparr>data = Instance DataFrame [1, 1, 0], extra_attr = ''left''\<rparr>)
   \<and> dunder_ge (cells_engine True)
     \<lparr>data = Instance DataFrame [1, 2, 2], extra_attr = ''left''\<rparr>
     (Proxy \<lparr>data = Instance DataFrame [1, 3, 1], extra_attr = ''right''\<rparr>) =
     Inr (Proxy \<lparr>data = Instance DataFrame [1, 0, 1], extra_attr = ''left''\<rparr>)
   \<and> dunder_le (cells_engine True)
     \<lparr>data = Instance DataFrame [1, 2, 2], extra_attr = ''left''\<rparr>
     (Proxy \<lparr>data = Instance DataFrame [1, 3, 1], extra_attr = ''right''\<rparr>) \<noteq>
     spec_comparison (cells_engine True)
     \<lparr>data = Instance DataFrame [1, 2, 2], extra_attr = ''left''\<rparr>
     (Proxy \<lparr>data = Instance DataFrame [1, 3, 1], extra_attr = ''right''\<rparr>) ''gt_eq''"
proof -
  let ?E = "cells_engine True"
  let ?a = "\<lparr>data = Instance DataFrame [1, 2, 2], extra_attr = ''left''\<rparr> :: int list PolarsDataset"
  let ?b = "\<lparr>data = Instance DataFrame [1, 3, 1], extra_attr = ''right''\<rparr> :: int list PolarsDataset"
  let ?f = "Callable ''_compare_to_other_df'' (Instance DataFrame [1, 2, 2 :: int])"
  let ?le = "Instance DataFrame [1, 1, 0 :: int]"
  let ?ge = "Instance DataFrame [1, 0, 1 :: int]"
  have h: "getattr_data ?E (data ?a) ''_compare_to_other_df'' = Inr ?f"
    by (simp add: cells_engine_def table_methods_def)
  have c: "callable ?f" by simp
  have p_le: "invoke ?E ?f [Raw (data ?b), Raw (StrV ''lt_eq'')] [] = Inr ?le"
    by (simp add: cells_engine_def bool_cells_def)
  have p_ge: "invoke ?E ?f [Raw (data ?b), Raw (StrV ''gt_eq'')] [] = Inr ?ge"
    by (simp add: cells_engine_def bool_cells_def)
  have t_le: "isinstance_DataFrameLike ?le" by (simp add: DataFrameLikeClasses_def)
  have t_ge: "isinstance_DataFrameLike ?ge" by (simp add: DataFrameLikeClasses_def)
  have d_le: "invoke ?E ?f [Proxy ?b, Raw (StrV ''lt_eq'')] [] = Inr ?le"
    by (simp add: cells_engine_def bool_cells_def)
  have d_ge: "invoke ?E ?f [Proxy ?b, Raw (StrV ''gt_eq'')] [] = Inr ?ge"
    by (simp add: cells_engine_def bool_cells_def)
  note m = le_ge_mapping [OF h c p_le p_ge t_le t_ge d_le d_ge]
  have le: "dunder_le ?E ?a (Proxy ?b) =
      Inr (Proxy \<lparr>data = ?le, extra_attr = ''left''\<rparr>)"
    using m [THEN conjunct1] by simp
  have ge: "dunder_ge ?E ?a (Proxy ?b) =
      Inr (Proxy \<lparr>data = ?ge, extra_attr = ''left''\<rparr>)"
    using m [THEN conjunct2, THEN conjunct1] by simp
  have "?le \<noteq> ?ge" by simp
  with m [THEN conjunct2, THEN conjunct2, THEN conjunct2, THEN conjunct2]
  have ne: "dunder_le ?E ?a (Proxy ?b) \<noteq> spec_comparison ?E ?a (Proxy ?b) ''gt_eq''"
    by blast
  from le ge ne show ?thesis by blast
qed

text \<open>
  C10. Neither \<^verbatim>\<open>_compare_to_other_df\<close> nor \<^verbatim>\<open>_compare_to_non_df\<close> is bound in the class body;
  \<^verbatim>\<open>_comp\<close> gets them from \<^verbatim>\<open>__getattr__\<close>, that is from the payload. So when the payload has no
  attribute \<^verbatim>\<open>_compare_to_other_df\<close>, each of the six comparisons with a proxy on the right
  raises \<^verbatim>\<open>AttributeError\<close>, and when it has no \<^verbatim>\<open>_compare_to_non_df\<close>, each of the six with
  anything else on the right does.
\<close>

theorem comparison_needs_payload_routine:
  "''_compare_to_other_df'' \<notin> set class_body
   \<and> ''_compare_to_non_df'' \<notin> set class_body
   \<and> comp_dispatch env self (Proxy p) op =
       (case dunder_getattr env self ''_compare_to_other_df'' of
          Inl e \<Rightarrow> Inl e
        | Inr m \<Rightarrow> call_value env m [Proxy p, Raw (StrV op)] [])
   \<and> (\<not> isinstance_PolarsDataset other \<longrightarrow>
        comp_dispatch env self other op =
          (case dunder_getattr env self ''_compare_to_non_df'' of
             Inl e \<Rightarrow> Inl e
           | Inr m \<Rightarrow> call_value env m [other, Raw (StrV op)] []))
   \<and> (getattr_data env (data self) ''_compare_to_other_df'' = Inl AttributeError \<longrightarrow>
        dunder_eq env self (Proxy p) = Inl AttributeError
        \<and> dunder_ne env self (Proxy p) = Inl AttributeError
        \<and> dunder_gt env self (Proxy p) = Inl AttributeError
        \<and> dunder_lt env self (Proxy p) = Inl AttributeError
        \<and> dunder_ge env self (Proxy p) = Inl AttributeError
        \<and> dunder_le env self (Proxy p) = Inl AttributeError)
   \<and> (getattr_data env (data self) ''_compare_to_non_df'' = Inl AttributeError
        \<and> \<not> isinstance_PolarsDataset other \<longrightarrow>
        dunder_eq env self other = Inl AttributeError
        \<and> dunder_ne env self other = Inl AttributeError
        \<and> dunder_gt env self other = Inl AttributeError
        \<and> dunder_lt env self other = Inl AttributeError
        \<and> dunder_ge env self other = Inl AttributeError
        \<and> dunder_le env self other = Inl AttributeError)"
proof (intro conjI impI)
  show "''_compare_to_other_df'' \<notin> set class_body"
    by (simp add: class_body_def)
  show "''_compare_to_non_df'' \<notin> set class_body"
    by (simp add: class_body_def)
  show "comp_dispatch env self (Proxy p) op =
      (case dunder_getattr env self ''_compare_to_other_df'' of
         Inl e \<Rightarrow> Inl e
       | Inr m \<Rightarrow> call_value env m [Proxy p, Raw (StrV op)] [])"
    by (simp add: comp_dispatch_def)
next
  assume "\<not> isinstance_PolarsDataset other"
  then show "comp_dispatch env self other op =
      (case dunder_getattr env self ''_compare_to_non_df'' of
         Inl e \<Rightarrow> Inl e
       | Inr m \<Rightarrow> call_value env m [other, Raw (StrV op)] [])"
    by (simp add: comp_dispatch_def)
next
  assume "getattr_data env (data self) ''_compare_to_other_df'' = Inl AttributeError"
  then have miss: "comp_dispatch env self (Proxy p) name = Inl AttributeError" for name
    by (simp add: comp_dispatch_missing)
  show "dunder_eq env self (Proxy p) = Inl AttributeError" by (simp add: dunder_eq_def miss)
  show "dunder_ne env self (Proxy p) = Inl AttributeError" by (simp add: dunder_ne_def miss)
  show "dunder_gt env self (Proxy p) = Inl AttributeError" by (simp add: dunder_gt_def miss)
  show "dunder_lt env self (Proxy p) = Inl AttributeError" by (simp add: dunder_lt_def miss)
  show "dunder_ge env self (Proxy p) = Inl AttributeError" by (simp add: dunder_ge_def miss)
  show "dunder_le env self (Proxy p) = Inl AttributeError" by (simp add: dunder_le_def miss)
next
  assume "getattr_data env (data self) ''_compare_to_non_df'' = Inl AttributeError
      \<and> \<not> isinstance_PolarsDataset other"
  then have miss: "comp_dispatch env self other name = Inl AttributeError" for name
    by (simp add: comp_dispatch_missing)
  show "dunder_eq env self other = Inl AttributeError" by (simp add: dunder_eq_def miss)
  show "dunder_ne env self other = Inl AttributeError" by (simp add: dunder_ne_def miss)
  show "dunder_gt env self other = Inl AttributeError" by (simp add: dunder_gt_def miss)
  show "dunder_lt env self other = Inl AttributeError" by (simp add: dunder_lt_def miss)
  show "dunder_ge env self other = Inl AttributeError" by (simp add: dunder_ge_def miss)
  show "dunder_le env self other = Inl AttributeError" by (simp add: dunder_le_def miss)
qed

theorem comparison_needs_payload_routine_witness:
  "dunder_eq (cells_engine True)
     \<lparr>data = Instance LazyFrame [1, 2], extra_attr = ''lazy''\<rparr>
     (Proxy \<lparr>data = Instance LazyFrame [1, 2], extra_attr = ''other''\<rparr>) = Inl AttributeError
   \<and> dunder_le (cells_engine True)
     \<lparr>data = Instance LazyFrame [1, 2], extra_attr = ''lazy''\<rparr>
     (Proxy \<lparr>data = Instance LazyFrame [1, 2], extra_attr = ''other''\<rparr>) = Inl AttributeError
   \<and> dunder_eq (cells_engine True)
     \<lparr>data = Instance LazyFrame [1, 2], extra_attr = ''lazy''\<rparr> (Raw (IntV 1)) =
     Inl AttributeError
   \<and> dunder_gt (cells_engine True)
     \<lparr>data = Instance LazyFrame [1, 2], extra_attr = ''lazy''\<rparr> (Raw (IntV 1)) =
     Inl AttributeError"
proof -
  let ?E = "cells_engine True"
  let ?a = "\<lparr>data = Instance LazyFrame [1, 2], extra_attr = ''lazy''\<rparr> :: int list PolarsDataset"
  let ?b = "\<lparr>data = Instance LazyFrame [1, 2], extra_attr = ''other''\<rparr> :: int list PolarsDataset"
  let ?k = "Raw (IntV 1) :: int list pyval"
  have h1: "getattr_data ?E (data ?a) ''_compare_to_other_df'' = Inl AttributeError"
    by (simp add: cells_engine_def)
  have h2: "getattr_data ?E (data ?a) ''_compare_to_non_df'' = Inl AttributeError
      \<and> \<not> isinstance_PolarsDataset ?k"
    by (simp add: cells_engine_def)
  from comparison_needs_payload_routine [where env = ?E and self = ?a and p = ?b and other = ?k]
    h1 h2
  show ?thesis by simp
qed

section \<open>Arithmetic operators\<close>

text \<open>
  C3. For each of \<^verbatim>\<open>//\<close>, \<^verbatim>\<open>/\<close>, \<^verbatim>\<open>*\<close>, reflected \<^verbatim>\<open>*\<close>, \<^verbatim>\<open>+\<close>, reflected \<^verbatim>\<open>+\<close>, \<^verbatim>\<open>-\<close> and \<^verbatim>\<open>%\<close>: the
  payload's method of that name is applied to the payload of the other operand when that
  operand is a proxy and to the operand itself otherwise, and whatever it returns is put
  into a proxy whose metadata is that of \<open>self\<close>; the metadata of the other operand appears
  nowhere in the answer.
\<close>

theorem arithmetic_rewraps:
  "let operand = (case other of Proxy p \<Rightarrow> Raw (data p) | _ \<Rightarrow> other);
       answer = (\<lambda>name.
         case getattr_data env (data self) name of
           Inl e \<Rightarrow> Inl e
         | Inr f \<Rightarrow>
             (case call env f [operand] [] of
                Inl e \<Rightarrow> Inl e
              | Inr result \<Rightarrow> Inr (Proxy \<lparr>data = result, extra_attr = extra_attr self\<rparr>)))
   in dunder_floordiv env self other = answer ''__floordiv__''
    \<and> dunder_truediv env self other = answer ''__truediv__''
    \<and> dunder_mul env self other = answer ''__mul__''
    \<and> dunder_rmul env self other = answer ''__rmul__''
    \<and> dunder_add env self other = answer ''__add__''
    \<and> dunder_radd env self other = answer ''__radd__''
    \<and> dunder_sub env self other = answer ''__sub__''
    \<and> dunder_mod env self other = answer ''__mod__''"
  unfolding Let_def dunder_floordiv_def dunder_truediv_def dunder_mul_def dunder_rmul_def
    dunder_add_def dunder_radd_def dunder_sub_def dunder_mod_def
  by (simp add: apply_op_unfold)

theorem arithmetic_rewraps_witness:
  "dunder_add (cells_engine False)
     \<lparr>data = Instance DataFrame [1, 2, 2], extra_attr = ''left''\<rparr>
     (Proxy \<lparr>data = Instance DataFrame [1, 3, 1], extra_attr = ''right''\<rparr>) =
     Inr (Proxy \<lparr>data = Instance DataFrame [2, 5, 3], extra_attr = ''left''\<rparr>)
   \<and> dunder_mul (cells_engine False)
     \<lparr>data = Instance DataFrame [1, 2, 2], extra_attr = ''left''\<rparr> (Raw (IntV 2)) =
     Inr (Proxy \<lparr>data = Instance DataFrame [2, 4, 4], extra_attr = ''left''\<rparr>)"
proof -
  let ?E = "cells_engine False"
  let ?a = "\<lparr>data = Instance DataFrame [1, 2, 2], extra_attr = ''left''\<rparr> :: int list PolarsDataset"
  let ?b = "Proxy \<lparr>data = Instance DataFrame [1, 3, 1], extra_attr = ''right''\<rparr> :: int list pyval"
  let ?k = "Raw (IntV 2) :: int list pyval"
  have "dunder_add ?E ?a ?b =
      Inr (Proxy \<lparr>data = Instance DataFrame [2, 5, 3], extra_attr = ''left''\<rparr>)"
    using arithmetic_rewraps [where env = ?E and self = ?a and other = ?b]
    by (simp add: Let_def cells_engine_def table_methods_def call_def)
  moreover have "dunder_mul ?E ?a ?k =
      Inr (Proxy \<lparr>data = Instance DataFrame [2, 4, 4], extra_attr = ''left''\<rparr>)"
    using arithmetic_rewraps [where env = ?E and self = ?a and other = ?k]
    by (simp add: Let_def cells_engine_def table_methods_def call_def)
  ultimately show ?thesis by simp
qed

section \<open>Item access and the container protocols\<close>

text \<open>
  C8. \<^verbatim>\<open>proxy[key]\<close> answers as calling what \<^verbatim>\<open>__getattr__\<close> would hand back for the payload's
  \<^verbatim>\<open>__getitem__\<close>: a result of a class in \<^verbatim>\<open>DataFrameLikeClasses\<close> comes back in a proxy with
  the metadata of \<open>self\<close>, any other result as it is. \<^verbatim>\<open>__iter__\<close>, \<^verbatim>\<open>__reversed__\<close>, \<^verbatim>\<open>__bool__\<close>
  and \<^verbatim>\<open>__len__\<close> hand back what the payload's protocol gives, and never a proxy.
\<close>

theorem getitem_rewraps_protocols_raw:
  "(getattr_data env (data self) ''__getitem__'' = Inr f \<and> callable f \<longrightarrow>
      dunder_getitem env self key =
        (case invoke env f [key] [] of
           Inl e \<Rightarrow> Inl e
         | Inr result \<Rightarrow>
             if isinstance_DataFrameLike result
             then Inr (Proxy \<lparr>data = result, extra_attr = extra_attr self\<rparr>)
             else Inr (Raw result)))
   \<and> dunder_getitem env self key =
       (case dunder_getattr env self ''__getitem__'' of
          Inl e \<Rightarrow> Inl e
        | Inr w \<Rightarrow> call_value env w [key] [])
   \<and> (getattr_data env (data self) ''__iter__'' = Inr g \<and> callable g \<longrightarrow>
        dunder_iter env self = map_sum id Raw (invoke env g [] []))
   \<and> (getattr_data env (data self) ''__reversed__'' = Inr g \<and> callable g \<longrightarrow>
        dunder_reversed env self = map_sum id Raw (invoke env g [] []))
   \<and> (getattr_data env (data self) ''__bool__'' = Inr g \<and> callable g \<longrightarrow>
        dunder_bool env self = map_sum id Raw (invoke env g [] []))
   \<and> dunder_len env self = map_sum id (\<lambda>n. Raw (IntV (int n))) (builtin_len env (data self))
   \<and> (\<forall>p. dunder_iter env self \<noteq> Inr (Proxy p))
   \<and> (\<forall>p. dunder_reversed env self \<noteq> Inr (Proxy p))
   \<and> (\<forall>p. dunder_bool env self \<noteq> Inr (Proxy p))
   \<and> (\<forall>p. dunder_len env self \<noteq> Inr (Proxy p))"
proof (intro conjI impI allI)
  assume h: "getattr_data env (data self) ''__getitem__'' = Inr f \<and> callable f"
  then show "dunder_getitem env self key =
      (case invoke env f [key] [] of
         Inl e \<Rightarrow> Inl e
       | Inr result \<Rightarrow>
           if isinstance_DataFrameLike result
           then Inr (Proxy \<lparr>data = result, extra_attr = extra_attr self\<rparr>)
           else Inr (Raw result))"
    by (simp add: dunder_getitem_def wrap_method_def wrapper_callable)
next
  show "dunder_getitem env self key =
      (case dunder_getattr env self ''__getitem__'' of
         Inl e \<Rightarrow> Inl e
       | Inr w \<Rightarrow> call_value env w [key] [])"
  proof (cases "getattr_data env (data self) ''__getitem__''")
    case (Inl e)
    then show ?thesis by (simp add: dunder_getitem_def dunder_getattr_def)
  next
    case (Inr f)
    show ?thesis
    proof (cases "callable f")
      case True
      with Inr show ?thesis
        by (simp add: dunder_getitem_def dunder_getattr_callable wrap_method_def)
    next
      case False
      with Inr show ?thesis
        by (simp add: dunder_getitem_def dunder_getattr_def wrap_method_def wrapper_def call_def)
    qed
  qed
next
  assume "getattr_data env (data self) ''__iter__'' = Inr g \<and> callable g"
  then show "dunder_iter env self = map_sum id Raw (invoke env g [] [])"
    by (simp add: dunder_iter_def call_callable)
next
  assume "getattr_data env (data self) ''__reversed__'' = Inr g \<and> callable g"
  then show "dunder_reversed env self = map_sum id Raw (invoke env g [] [])"
    by (simp add: dunder_reversed_def call_callable)
next
  assume "getattr_data env (data self) ''__bool__'' = Inr g \<and> callable g"
  then show "dunder_bool env self = map_sum id Raw (invoke env g [] [])"
    by (simp add: dunder_bool_def call_callable)
next
  show "dunder_len env self = map_sum id (\<lambda>n. Raw (IntV (int n))) (builtin_len env (data self))"
    by (simp add: dunder_len_def)
next
  fix p show "dunder_iter env self \<noteq> Inr (Proxy p)"
    by (cases "getattr_data env (data self) ''__iter__''")
       (auto simp: dunder_iter_def map_sum_def split: sum.splits)
next
  fix p show "dunder_reversed env self \<noteq> Inr (Proxy p)"
    by (cases "getattr_data env (data self) ''__reversed__''")
       (auto simp: dunder_reversed_def map_sum_def split: sum.splits)
next
  fix p show "dunder_bool env self \<noteq> Inr (Proxy p)"
    by (cases "getattr_data env (data self) ''__bool__''")
       (auto simp: dunder_bool_def map_sum_def split: sum.splits)
next
  fix p show "dunder_len env self \<noteq> Inr (Proxy p)"
    by (auto simp: dunder_len_def map_sum_def split: sum.splits)
qed


theorem getitem_rewraps_protocols_raw_witness:
  "dunder_getitem (cells_engine False)
     \<lparr>data = Instance DataFrame [1, 2, 2], extra_attr = ''left''\<rparr> (Raw (ListV [StrV ''a''])) =
     Inr (Proxy \<lparr>data = Instance DataFrame [1, 2, 2], extra_attr = ''left''\<rparr>)
   \<and> dunder_getitem (cells_engine False)
     \<lparr>data = Instance DataFrame [1, 2, 2], extra_attr = ''left''\<rparr> (Raw (StrV ''a'')) =
     Inr (Raw (Instance Series [1, 2, 2]))
   \<and> dunder_iter (cells_engine False)
     \<lparr>data = Instance GroupBy [1, 2, 2], extra_attr = ''left''\<rparr> =
     Inr (Raw (ListV [Instance DataFrame [1, 2, 2]]))
   \<and> dunder_reversed (cells_engine False)
     \<lparr>data = Instance DataFrame [1, 2, 2], extra_attr = ''left''\<rparr> =
     Inr (Raw (ListV [Instance Series [1, 2, 2]]))
   \<and> dunder_bool (cells_engine False)
     \<lparr>data = Instance DataFrame [1, 2, 2], extra_attr = ''left''\<rparr> = Inl TypeError
   \<and> dunder_len (cells_engine False)
     \<lparr>data = Instance DataFrame [1, 2, 2], extra_attr = ''left''\<rparr> = Inr (Raw (IntV 3))"
proof -
  let ?E = "cells_engine False"
  let ?a = "\<lparr>data = Instance DataFrame [1, 2, 2], extra_attr = ''left''\<rparr> :: int list PolarsDataset"
  let ?g = "\<lparr>data = Instance GroupBy [1, 2, 2], extra_attr = ''left''\<rparr> :: int list PolarsDataset"
  let ?m = "\<lambda>name. Callable name (Instance DataFrame [1, 2, 2 :: int])"
  have item: "getattr_data ?E (data ?a) ''__getitem__'' = Inr (?m ''__getitem__'')
      \<and> callable (?m ''__getitem__'')"
    by (simp add: cells_engine_def table_methods_def)
  have iter: "getattr_data ?E (data ?g) ''__iter__'' =
      Inr (Callable ''__iter__'' (Instance GroupBy [1, 2, 2]))
      \<and> callable (Callable ''__iter__'' (Instance GroupBy [1, 2, 2 :: int]))"
    by (simp add: cells_engine_def)
  have rev: "getattr_data ?E (data ?a) ''__reversed__'' = Inr (?m ''__reversed__'')
      \<and> callable (?m ''__reversed__'')"
    by (simp add: cells_engine_def table_methods_def)
  have bool: "getattr_data ?E (data ?a) ''__bool__'' = Inr (?m ''__bool__'')
      \<and> callable (?m ''__bool__'')"
    by (simp add: cells_engine_def table_methods_def)
  have "dunder_getitem ?E ?a (Raw (ListV [StrV ''a''])) = Inr (Proxy ?a)"
    using getitem_rewraps_protocols_raw
      [where env = ?E and self = ?a and f = "?m ''__getitem__''"
        and key = "Raw (ListV [StrV ''a''])"] item
    by (simp add: cells_engine_def DataFrameLikeClasses_def)
  moreover have "dunder_getitem ?E ?a (Raw (StrV ''a'')) = Inr (Raw (Instance Series [1, 2, 2]))"
    using getitem_rewraps_protocols_raw
      [where env = ?E and self = ?a and f = "?m ''__getitem__''" and key = "Raw (StrV ''a'')"] item
    by (simp add: cells_engine_def DataFrameLikeClasses_def)
  moreover have "dunder_iter ?E ?g = Inr (Raw (ListV [Instance DataFrame [1, 2, 2]]))"
    using getitem_rewraps_protocols_raw
      [where env = ?E and self = ?g and g = "Callable ''__iter__'' (Instance GroupBy [1, 2, 2])"] iter
    by (simp add: cells_engine_def)
  moreover have "dunder_reversed ?E ?a = Inr (Raw (ListV [Instance Series [1, 2, 2]]))"
    using getitem_rewraps_protocols_raw
      [where env = ?E and self = ?a and g = "?m ''__reversed__''"] rev
    by (simp add: cells_engine_def)
  moreover have "dunder_bool ?E ?a = Inl TypeError"
    using getitem_rewraps_protocols_raw
      [where env = ?E and self = ?a and g = "?m ''__bool__''"] bool
    by (simp add: cells_engine_def)
  moreover have "dunder_len ?E ?a = Inr (Raw (IntV 3))"
    using getitem_rewraps_protocols_raw [where env = ?E and self = ?a]
    by (simp add: cells_engine_def)
  ultimately show ?thesis by simp
qed

section \<open>Partitioning\<close>

text \<open>
  C5. When the payload's \<^verbatim>\<open>partition_by\<close> returns a list, the proxy returns the list of
  proxies of its elements, in the same order and each with the metadata of \<open>self\<close>; when it
  returns a dict (its keys are distinct), the proxy returns the dict with the same keys in
  the same order, each value replaced by its proxy with the metadata of \<open>self\<close>.
\<close>

theorem partition_by_shapes:
  assumes "getattr_data env (data self) ''partition_by'' = Inr f"
    and "callable f"
  shows "(invoke env f args kwargs = Inr (ListV xs) \<longrightarrow>
            partition_by env self args kwargs =
              Inr (PList (map (\<lambda>new_data. Proxy \<lparr>data = new_data, extra_attr = extra_attr self\<rparr>) xs)))
       \<and> (invoke env f args kwargs = Inr (DictV kvs) \<and> distinct (map fst kvs) \<longrightarrow>
            partition_by env self args kwargs =
              Inr (PDict (map (\<lambda>(name, new_data).
                     (name, Proxy \<lparr>data = new_data, extra_attr = extra_attr self\<rparr>)) kvs)))"
  using assms
  by (simp add: partition_by_def call_callable replace_data_fields dict_comprehension_distinct)

theorem partition_by_shapes_witness:
  "partition_by (cells_engine False)
     \<lparr>data = Instance DataFrame [1, 2, 2, 3], extra_attr = ''left''\<rparr> [Raw (StrV ''a'')] [] =
     Inr (PList
       [Proxy \<lparr>data = Instance DataFrame [1], extra_attr = ''left''\<rparr>,
        Proxy \<lparr>data = Instance DataFrame [2, 2], extra_attr = ''left''\<rparr>,
        Proxy \<lparr>data = Instance DataFrame [3], extra_attr = ''left''\<rparr>])
   \<and> partition_by (cells_engine False)
     \<lparr>data = Instance DataFrame [1, 2, 2], extra_attr = ''left''\<rparr> [Raw (StrV ''a'')]
     [(''as_dict'', Raw (BoolV True))] =
     Inr (PDict
       [(IntV 1, Proxy \<lparr>data = Instance DataFrame [1], extra_attr = ''left''\<rparr>),
        (IntV 2, Proxy \<lparr>data = Instance DataFrame [2, 2], extra_attr = ''left''\<rparr>)])"
proof -
  let ?E = "cells_engine False"
  let ?a = "\<lparr>data = Instance DataFrame [1, 2, 2, 3], extra_attr = ''left''\<rparr> :: int list PolarsDataset"
  let ?b = "\<lparr>data = Instance DataFrame [1, 2, 2], extra_attr = ''left''\<rparr> :: int list PolarsDataset"
  let ?f = "Callable ''partition_by'' (Instance DataFrame [1, 2, 2, 3 :: int])"
  let ?g = "Callable ''partition_by'' (Instance DataFrame [1, 2, 2 :: int])"
  let ?xs = "[Instance DataFrame [1], Instance DataFrame [2, 2], Instance DataFrame [3 :: int]]"
  let ?kvs = "[(IntV 1, Instance DataFrame [1]), (IntV 2, Instance DataFrame [2, 2 :: int])]"
  have h1: "getattr_data ?E (data ?a) ''partition_by'' = Inr ?f"
    by (simp add: cells_engine_def table_methods_def)
  have h2: "getattr_data ?E (data ?b) ''partition_by'' = Inr ?g"
    by (simp add: cells_engine_def table_methods_def)
  have r1: "invoke ?E ?f [Raw (StrV ''a'')] [] = Inr (ListV ?xs)"
    by (simp add: cells_engine_def)
  have r2: "invoke ?E ?g [Raw (StrV ''a'')] [(''as_dict'', Raw (BoolV True))] = Inr (DictV ?kvs)"
    by (simp add: cells_engine_def)
  have d: "distinct (map fst ?kvs)" by simp
  have "partition_by ?E ?a [Raw (StrV ''a'')] [] =
      Inr (PList (map (\<lambda>new_data. Proxy \<lparr>data = new_data, extra_attr = extra_attr ?a\<rparr>) ?xs))"
    using partition_by_shapes [OF h1, where args = "[Raw (StrV ''a'')]" and kwargs = "[]" and xs = ?xs] r1
    by simp
  moreover have "partition_by ?E ?b [Raw (StrV ''a'')] [(''as_dict'', Raw (BoolV True))] =
      Inr (PDict (map (\<lambda>(name, new_data).
             (name, Proxy \<lparr>data = new_data, extra_attr = extra_attr ?b\<rparr>)) ?kvs))"
    using partition_by_shapes
      [OF h2, where args = "[Raw (StrV ''a'')]" and kwargs = "[(''as_dict'', Raw (BoolV True))]"
        and kvs = ?kvs] r2 d
    by simp
  ultimately show ?thesis by simp
qed

text \<open>
  C6. When the payload's \<^verbatim>\<open>partition_by\<close> returns something that is neither a list nor a
  dict, the proxy's \<^verbatim>\<open>partition_by\<close> returns nothing and raises \<^verbatim>\<open>AssertionError\<close>.
\<close>

theorem partition_by_assertion:
  assumes "getattr_data env (data self) ''partition_by'' = Inr f"
    and "callable f"
    and "invoke env f args kwargs = Inr result"
    and "\<forall>xs. result \<noteq> ListV xs"
    and "\<forall>kvs. result \<noteq> DictV kvs"
  shows "partition_by env self args kwargs = Inl AssertionError"
  using assms by (cases result) (simp_all add: partition_by_def call_callable)

theorem partition_by_assertion_witness:
  "partition_by broken_engine
     \<lparr>data = Instance DataFrame [1, 2, 2], extra_attr = ''left''\<rparr> [Raw (StrV ''a'')] [] =
     Inl AssertionError"
proof -
  let ?a = "\<lparr>data = Instance DataFrame [1, 2, 2], extra_attr = ''left''\<rparr> :: int list PolarsDataset"
  let ?f = "Callable ''partition_by'' (Instance DataFrame [1, 2, 2 :: int])"
  have h: "getattr_data broken_engine (data ?a) ''partition_by'' = Inr ?f"
    by (simp add: broken_engine_def cells_engine_def table_methods_def)
  have c: "callable ?f" by simp
  have r: "invoke broken_engine ?f [Raw (StrV ''a'')] [] = Inr NoneV"
    by (simp add: broken_engine_def cells_engine_def)
  have n1: "\<forall>xs. (NoneV :: int list pl_value) \<noteq> ListV xs" by simp
  have n2: "\<forall>kvs. (NoneV :: int list pl_value) \<noteq> DictV kvs" by simp
  show ?thesis by (rule partition_by_assertion [OF h c r n1 n2])
qed

section \<open>Concatenation\<close>

text \<open>
  C7. \<^verbatim>\<open>concat(items, base, **kwargs)\<close> is the proxy whose payload is what \<^verbatim>\<open>pl.concat\<close> makes
  of the items' payloads and the keyword arguments, and whose metadata is that of \<open>base\<close>;
  items with the same payloads and other metadata give the same answer.
\<close>

theorem concat_base_metadata:
  "(pl_concat env (map data items) kwargs = Inr new_data \<longrightarrow>
      concat_datasets env items base kwargs =
        Inr \<lparr>data = new_data, extra_attr = extra_attr base\<rparr>)
   \<and> (map data items' = map data items \<longrightarrow>
      concat_datasets env items' base kwargs = concat_datasets env items base kwargs)"
  by (simp add: concat_datasets_def replace_data_fields)

theorem concat_base_metadata_witness:
  "concat_datasets (cells_engine False)
     [\<lparr>data = Instance DataFrame [1, 2], extra_attr = ''p1''\<rparr>,
      \<lparr>data = Instance DataFrame [3], extra_attr = ''p2''\<rparr>]
     \<lparr>data = Instance DataFrame [], extra_attr = ''X''\<rparr> [(''how'', Raw (StrV ''vertical''))] =
     Inr \<lparr>data = Instance DataFrame [1, 2, 3], extra_attr = ''X''\<rparr>
   \<and> concat_datasets (cells_engine False)
     [\<lparr>data = Instance DataFrame [1, 2], extra_attr = ''q1''\<rparr>,
      \<lparr>data = Instance DataFrame [3], extra_attr = ''q2''\<rparr>]
     \<lparr>data = Instance DataFrame [], extra_attr = ''X''\<rparr> [(''how'', Raw (StrV ''vertical''))] =
     concat_datasets (cells_engine False)
     [\<lparr>data = Instance DataFrame [1, 2], extra_attr = ''p1''\<rparr>,
      \<lparr>data = Instance DataFrame [3], extra_attr = ''p2''\<rparr>]
     \<lparr>data = Instance DataFrame [], extra_attr = ''X''\<rparr> [(''how'', Raw (StrV ''vertical''))]"
proof -
  let ?E = "cells_engine False"
  let ?ps = "[\<lparr>data = Instance DataFrame [1, 2], extra_attr = ''p1''\<rparr>,
      \<lparr>data = Instance DataFrame [3], extra_attr = ''p2''\<rparr>] :: int list PolarsDataset list"
  let ?qs = "[\<lparr>data = Instance DataFrame [1, 2], extra_attr = ''q1''\<rparr>,
      \<lparr>data = Instance DataFrame [3], extra_attr = ''q2''\<rparr>] :: int list PolarsDataset list"
  let ?base = "\<lparr>data = Instance DataFrame [], extra_attr = ''X''\<rparr> :: int list PolarsDataset"
  let ?kw = "[(''how'', Raw (StrV ''vertical''))] :: int list kwargs"
  have r: "pl_concat ?E (map data ?ps) ?kw = Inr (Instance DataFrame [1, 2, 3])"
    by (simp add: cells_engine_def)
  have e: "map data ?qs = map data ?ps" by simp
  from concat_base_metadata [where env = ?E and items = ?ps and kwargs = ?kw
      and new_data = "Instance DataFrame [1, 2, 3]" and base = ?base and items' = ?qs] r e
  show ?thesis by simp
qed

section \<open>Serialization\<close>

text \<open>
  C9. \<^verbatim>\<open>__getstate__\<close> raises \<^verbatim>\<open>NotImplementedError\<close> for every payload and every metadata.
\<close>

theorem getstate_not_implemented:
  "dunder_getstate \<lparr>data = payload, extra_attr = metadata\<rparr> = Inl NotImplementedError"
  by (simp add: dunder_getstate_def)

end
